theory Spec2Isabelle
  imports Main
begin

section \<open>Strings as the client uses them\<close>

text \<open>
  A string is a list of code units; every character that occurs in the source
  (\<open>ApiClient.ts\<close>) is below 256, so one \<open>char\<close> stands for one code unit.
\<close>

definition startsWith :: "string \<Rightarrow> string \<Rightarrow> bool" where
  \<comment> \<open>\<open>s.startsWith(p)\<close>\<close>
  "startsWith s p = (take (length p) s = p)"


fun str_includes :: "string \<Rightarrow> string \<Rightarrow> bool" where
  \<comment> \<open>\<open>s.includes(p)\<close>: \<open>p\<close> occurs at some position of \<open>s\<close>\<close>
  "str_includes [] p = (p = [])"
| "str_includes (c # cs) p = (startsWith (c # cs) p \<or> str_includes cs p)"

definition lower_char :: "char \<Rightarrow> char" where
  "lower_char c =
     (let n = (of_char c :: nat) in if 65 \<le> n \<and> n \<le> 90 then char_of (n + 32) else c)"

definition toLowerCase :: "string \<Rightarrow> string" where
  "toLowerCase s = map lower_char s"

definition is_space :: "char \<Rightarrow> bool" where
  \<comment> \<open>the white space and line terminators of \<open>String.prototype.trim\<close> below 256\<close>
  "is_space c = ((of_char c :: nat) \<in> {9, 10, 11, 12, 13, 32, 160})"

definition trim :: "string \<Rightarrow> string" where
  "trim s = rev (dropWhile is_space (rev (dropWhile is_space s)))"

definition digit_char :: "nat \<Rightarrow> char" where
  "digit_char d = char_of (48 + d)"

fun show_nat :: "nat \<Rightarrow> string" where
  "show_nat n = (if n < 10 then [digit_char n] else show_nat (n div 10) @ [digit_char (n mod 10)])"

declare show_nat.simps [simp del]

definition show_int :: "int \<Rightarrow> string" where
  \<comment> \<open>the decimal text a template literal gives an integer\<close>
  "show_int i = (if i < 0 then CHR ''-'' # show_nat (nat (- i)) else show_nat (nat i))"

section \<open>Built-in error messages\<close>

datatype Locale = En | Es

type_synonym messages = "int \<rightharpoonup> string"

definition DEFAULT_ERROR_MESSAGES :: "Locale \<Rightarrow> messages" where
  "DEFAULT_ERROR_MESSAGES loc =
     (case loc of
        Es \<Rightarrow> map_of
          [(400, ''La solicitud es inv'' @ [CHR 0xE1] @ ''lida. Verifica los datos enviados.''),
           (401, ''Necesitas iniciar sesi'' @ [CHR 0xF3] @ ''n para continuar.''),
           (403, ''No tienes permisos para realizar esta acci'' @ [CHR 0xF3] @ ''n.''),
           (404, ''El recurso solicitado no fue encontrado.''),
           (408, ''La solicitud tard'' @ [CHR 0xF3] @ '' demasiado en responder.''),
           (429, ''Demasiadas solicitudes. Intenta nuevamente m'' @ [CHR 0xE1] @ ''s tarde.''),
           (500, ''Ocurri'' @ [CHR 0xF3] @ '' un error interno en el servidor.''),
           (502, ''Puerta de enlace inv'' @ [CHR 0xE1] @ ''lida.''),
           (503, ''Servicio no disponible temporalmente.''),
           (504, ''Tiempo de espera agotado.'')]
      | En \<Rightarrow> map_of
          [(400, ''Invalid request. Please check your data.''),
           (401, ''You must be signed in to continue.''),
           (403, ''You don'' @ [CHR 0x27] @ ''t have permission for this action.''),
           (404, ''Resource not found.''),
           (408, ''Request timeout.''),
           (429, ''Too many requests. Try again later.''),
           (500, ''Internal server error.''),
           (502, ''Bad gateway.''),
           (503, ''Service unavailable.''),
           (504, ''Gateway timeout.'')])"

definition GENERIC_ERROR_MESSAGE :: "Locale \<Rightarrow> (int \<Rightarrow> string \<Rightarrow> string) option" where
  "GENERIC_ERROR_MESSAGE loc =
     (case loc of
        Es \<Rightarrow> Some (\<lambda>status text.
          trim (''Error de red ('' @ show_int status @ '' '' @ text @ '')''))
      | En \<Rightarrow> Some (\<lambda>status text.
          trim (''Network error ('' @ show_int status @ '' '' @ text @ '')'')))"


section \<open>Values, errors, requests and responses\<close>

datatype json =
    JNull | JBool bool | JNum int | JStr string | JArr "json list" | JObj "(string \<times> json) list"

text \<open>What a request resolves to, and the \<open>body\<close> of an \<open>ApiError\<close> (typed \<open>unknown\<close>):
  \<open>undefined\<close> or a value; \<open>null\<close> is \<open>Val JNull\<close>, a text is \<open>Val (JStr s)\<close>.\<close>

datatype js_value = Undefined | Val json

text \<open>
  Whatever can be thrown or be the reason of a rejection: an \<open>ApiError\<close> (status,
  statusText, message, body, isTimeout), another error object (name, message), or any
  other value (\<open>undefined\<close>, \<open>null\<close>, a primitive, plain data).
\<close>

datatype error =
    ApiError int string string js_value bool
  | JsError string string
  | Thrown js_value

definition TypeError_name_of :: "string \<Rightarrow> error" where
  \<comment> \<open>what reading \<open>.name\<close> of \<open>undefined\<close> or \<open>null\<close> throws\<close>
  "TypeError_name_of v =
     JsError ''TypeError''
       (''Cannot read properties of '' @ v @ '' (reading '' @ [CHR 0x27] @ ''name'' @ [CHR 0x27] @ '')'')"

fun read_name :: "error \<Rightarrow> error + string option" where
  \<comment> \<open>\<open>err.name\<close>: throws on \<open>undefined\<close> and \<open>null\<close>; \<open>None\<close> when the value has no name
      that is a string\<close>
  "read_name (ApiError status statusText message body isTimeout) = Inr (Some ''ApiError'')"
| "read_name (JsError name message) = Inr (Some name)"
| "read_name (Thrown Undefined) = Inl (TypeError_name_of ''undefined'')"
| "read_name (Thrown (Val JNull)) = Inl (TypeError_name_of ''null'')"
| "read_name (Thrown (Val (JObj fields))) =
     (case map_of (rev fields) ''name'' of Some (JStr name) \<Rightarrow> Inr (Some name) | _ \<Rightarrow> Inr None)"
| "read_name (Thrown (Val v)) = Inr None"

text \<open>\<open>RequestOptions["body"]\<close>: \<open>FormData | string | Blob | ArrayBuffer | Record<string, unknown>\<close>.\<close>

datatype body =
    BFormData "(string \<times> string) list"
  | BString string
  | BBlob string
  | BArrayBuffer string
  | BObject "(string \<times> json) list"

text \<open>
  An \<open>AbortSignal\<close> is known by its origin: the one of the controller that \<open>request\<close>
  creates, or one the caller made (numbered).
\<close>

datatype signal = ControllerSignal | CallerSignal nat

record AbortController =
  aborted :: bool

definition new_AbortController :: AbortController where
  "new_AbortController = \<lparr>aborted = False\<rparr>"

text \<open>
  A \<open>Headers\<close> object maps lower-cased names to values. \<open>HeadersInit\<close> is a list of
  name/value pairs (an object literal or an array of pairs).
\<close>

type_synonym headers_init = "(string \<times> string) list"
type_synonym headers = "string \<rightharpoonup> string"

definition Headers_get :: "headers \<Rightarrow> string \<Rightarrow> string option" where
  "Headers_get h name = h (toLowerCase name)"

definition Headers_set :: "string \<Rightarrow> string \<Rightarrow> headers \<Rightarrow> headers" where
  "Headers_set name v h = h(toLowerCase name \<mapsto> v)"

definition Headers_append :: "string \<Rightarrow> string \<Rightarrow> headers \<Rightarrow> headers" where
  "Headers_append name v h =
     (case h (toLowerCase name) of
        None \<Rightarrow> h(toLowerCase name \<mapsto> v)
      | Some old \<Rightarrow> h(toLowerCase name \<mapsto> old @ '', '' @ v))"

definition new_Headers :: "headers_init \<Rightarrow> headers" where
  "new_Headers init = fold (\<lambda>(name, v). Headers_append name v) init Map.empty"

text \<open>The per-call options: the five named fields, and the rest of \<open>RequestInit\<close>.\<close>

record rest =
  o_method :: "string option"
  signal :: "signal option"
  other :: "(string \<times> string) list"

record 'q options = rest +
  searchParams :: "'q option"
  o_body :: "body option"
  o_headers :: "headers_init option"
  errorLocale :: "Locale option"
  o_timeoutMs :: "nat option"

record init =
  i_method :: "string option"
  i_other :: "(string \<times> string) list"
  i_headers :: headers
  i_body :: "body option"
  i_signal :: "signal option"

record response =
  ok :: bool
  status :: int
  statusText :: string
  r_headers :: headers
  r_json :: "error + json"
  r_text :: "error + string"

text \<open>
  A promise is modelled by what a timer of \<open>ms\<close> milliseconds, started with it, finds
  when it fires: \<open>None\<close> if the promise has not settled by then, otherwise how it
  settled (\<open>Inl\<close> rejected, \<open>Inr\<close> fulfilled).
\<close>

type_synonym 'a promise = "nat \<Rightarrow> (error + 'a) option"

type_synonym fetch = "string \<Rightarrow> init \<Rightarrow> response promise"

record ApiClientInterceptors =
  i_request :: "(string \<Rightarrow> init \<Rightarrow> error + string \<times> init) option"
  i_response :: "(response \<Rightarrow> error + response) option"

text \<open>
  The calls made on the logger handle, in order. A call returns normally: \<open>Logger.log\<close>
  hands the entry to its transports and catches their asynchronous failures.
\<close>

datatype log_context =
    RequestContext "string option" string "body option"
  | DataContext int string json
  | TextContext int string string
  | FailureContext string "string option"

datatype log_call =
    Debug string log_context
  | Error string log_context error

text \<open>
  What the client takes from its surroundings: the \<open>URL\<close> class, \<open>JSON.stringify\<close>,
  \<open>StringUtils.toQueryString\<close> and the platform's \<open>fetch\<close>. \<open>'u\<close> is the type of
  \<open>URL\<close> objects, \<open>'q\<close> the type of \<open>searchParams\<close>.
\<close>

record ('u, 'q) env =
  URL_new :: "string \<Rightarrow> 'u option \<Rightarrow> error + 'u"
  URL_search :: "'u \<Rightarrow> string"
  URL_set_search :: "string \<Rightarrow> 'u \<Rightarrow> 'u"
  URL_toString :: "'u \<Rightarrow> string"
  JSON_stringify :: "(string \<times> json) list \<Rightarrow> string"
  toQueryString :: "'q \<Rightarrow> string"
  global_fetch :: fetch

section \<open>The client\<close>


record 'u ApiClient =
  baseUrl :: 'u
  headers :: headers_init
  fetchImpl :: fetch
  c_locale :: Locale
  timeoutMs :: nat
  interceptors :: "ApiClientInterceptors option"
  logger :: bool
  errorMessages :: "Locale \<Rightarrow> messages option"


subsection \<open>Error messages\<close>

definition set_add :: "'a \<Rightarrow> 'a list \<Rightarrow> 'a list" where
  \<comment> \<open>\<open>Set.prototype.add\<close>; the list is the set in insertion order\<close>
  "set_add x s = (if x \<in> set s then s else s @ [x])"

definition new_Set :: "'a list \<Rightarrow> 'a list" where
  "new_Set xs = fold set_add xs []"

definition filter_Boolean :: "'a option list \<Rightarrow> 'a list" where
  \<comment> \<open>\<open>.filter(Boolean)\<close> on locales: \<open>undefined\<close> goes, every locale name is truthy\<close>
  "filter_Boolean xs = concat (map (\<lambda>x. case x of None \<Rightarrow> [] | Some l \<Rightarrow> [l]) xs)"

definition getLocalePreference :: "'u ApiClient \<Rightarrow> Locale option \<Rightarrow> Locale list" where
  "getLocalePreference c override =
     new_Set (filter_Boolean [override, Some (c_locale c), Some Es, Some En])"

definition dict :: "'u ApiClient \<Rightarrow> Locale \<Rightarrow> messages" where
  \<comment> \<open>\<open>{...DEFAULT_ERROR_MESSAGES[loc], ...(this.errorMessages[loc] ?? {})}\<close>\<close>
  "dict c loc =
     DEFAULT_ERROR_MESSAGES loc ++ (case errorMessages c loc of Some m \<Rightarrow> m | None \<Rightarrow> Map.empty)"

fun first_message :: "'u ApiClient \<Rightarrow> int \<Rightarrow> Locale list \<Rightarrow> string option" where
  \<comment> \<open>the \<open>for\<close> loop of \<open>resolveErrorMessage\<close>: \<open>if (dict[status]) return dict[status]\<close>\<close>
  "first_message c st [] = None"
| "first_message c st (loc # locales) =
     (case dict c loc st of
        Some m \<Rightarrow> if m \<noteq> [] then Some m else first_message c st locales
      | None \<Rightarrow> first_message c st locales)"

definition generic_message :: "'u ApiClient \<Rightarrow> int \<Rightarrow> string \<Rightarrow> string" where
  "generic_message c st text =
     (case GENERIC_ERROR_MESSAGE (c_locale c) of
        Some f \<Rightarrow> f st text
      | None \<Rightarrow> the (GENERIC_ERROR_MESSAGE Es) st text)"

definition resolveErrorMessage :: "'u ApiClient \<Rightarrow> int \<Rightarrow> string \<Rightarrow> Locale option \<Rightarrow> string" where
  "resolveErrorMessage c st text overrideLocale =
     (case first_message c st (getLocalePreference c overrideLocale) of
        Some m \<Rightarrow> m
      | None \<Rightarrow> generic_message c st text)"

subsection \<open>Building the request\<close>

definition mergeHeaders :: "'u ApiClient \<Rightarrow> headers_init option \<Rightarrow> headers" where
  \<comment> \<open>\<open>forEach((v, k) => headers.set(k, v))\<close> over the entries of \<open>new Headers(overrides)\<close>
      sets each of its names: the overriding map is laid over the defaults\<close>
  "mergeHeaders c overrides =
     (let h = new_Headers (headers c) in
      case overrides of None \<Rightarrow> h | Some ov \<Rightarrow> h ++ new_Headers ov)"

fun truthy :: "body option \<Rightarrow> bool" where
  \<comment> \<open>a body as a condition: \<open>undefined\<close> and the empty string are falsy, every object is truthy\<close>
  "truthy None = False"
| "truthy (Some (BString s)) = (s \<noteq> [])"
| "truthy (Some b) = True"

fun instanceof_FormData :: "body option \<Rightarrow> bool" where
  "instanceof_FormData (Some (BFormData f)) = True"
| "instanceof_FormData b = False"

fun prepareBody :: "('u, 'q) env \<Rightarrow> body option \<Rightarrow> body option" where
  "prepareBody E None = None"
| "prepareBody E (Some b) =
     (if \<not> truthy (Some b) then None
      else case b of
        BFormData f \<Rightarrow> Some b
      | BString s \<Rightarrow> Some b
      | BBlob x \<Rightarrow> Some b
      | BArrayBuffer x \<Rightarrow> Some b
      | BObject obj \<Rightarrow> Some (BString (JSON_stringify E obj)))"

definition buildUrl :: "('u, 'q) env \<Rightarrow> 'u ApiClient \<Rightarrow> string \<Rightarrow> 'q option \<Rightarrow> error + string" where
  "buildUrl E c path params =
     (let normalized = (if startsWith path ''/'' then drop 1 path else path) in
      case URL_new E normalized (Some (baseUrl c)) of
        Inl e \<Rightarrow> Inl e
      | Inr url \<Rightarrow>
          Inr (URL_toString E
            (case params of
               None \<Rightarrow> url
             | Some ps \<Rightarrow>
                 (let queryString = toQueryString E ps in
                  if queryString \<noteq> [] then
                    URL_set_search E
                      (if URL_search E url \<noteq> [] then URL_search E url @ ''&'' @ queryString
                       else ''?'' @ queryString) url
                  else url))))"

subsection \<open>Timeout, response, errors\<close>

definition timeout_error :: error where
  \<comment> \<open>\<open>new ApiError(408, "Timeout", "Request timeout", null, true)\<close>\<close>
  "timeout_error = ApiError 408 ''Timeout'' ''Request timeout'' (Val JNull) True"

definition withTimeout :: "'a promise \<Rightarrow> nat \<Rightarrow> error + 'a" where
  "withTimeout promise ms =
     (case promise ms of None \<Rightarrow> Inl timeout_error | Some settled \<Rightarrow> settled)"

definition toApiError :: "'u ApiClient \<Rightarrow> response \<Rightarrow> Locale option \<Rightarrow> error" where
  "toApiError c res loc =
     (let type = (case Headers_get (r_headers res) ''content-type'' of Some t \<Rightarrow> t | None \<Rightarrow> []);
          body = (if str_includes type ''json''
                  then (case r_json res of Inr j \<Rightarrow> Val j | Inl e \<Rightarrow> Val JNull)
                  else (case r_text res of Inr t \<Rightarrow> Val (JStr t) | Inl e \<Rightarrow> Val JNull));
          message = resolveErrorMessage c (status res) (statusText res) loc
      in ApiError (status res) (statusText res) message body False)"

definition log_to :: "'u ApiClient \<Rightarrow> log_call \<Rightarrow> log_call list \<Rightarrow> log_call list" where
  \<comment> \<open>\<open>this.logger?.debug(...)\<close>, \<open>this.logger?.error(...)\<close>\<close>
  "log_to c call lg = (if logger c then lg @ [call] else lg)"

definition interpretResponse ::
  "'u ApiClient \<Rightarrow> string \<Rightarrow> Locale option \<Rightarrow> response \<Rightarrow> log_call list
     \<Rightarrow> (error + js_value) \<times> log_call list" where
  \<comment> \<open>the \<open>try\<close> block from \<open>if (!finalResponse.ok)\<close> on\<close>
  "interpretResponse c url loc finalResponse lg =
     (if \<not> ok finalResponse then (Inl (toApiError c finalResponse loc), lg)
      else if status finalResponse = 204 \<or>
              (case Headers_get (r_headers finalResponse) ''content-length'' of
                 None \<Rightarrow> True | Some len \<Rightarrow> len = [])
      then (Inr Undefined, lg)
      else
        (let contentType =
               (case Headers_get (r_headers finalResponse) ''content-type'' of
                  None \<Rightarrow> [] | Some t \<Rightarrow> t)
         in if str_includes (toLowerCase contentType) ''json'' then
              (case r_json finalResponse of
                 Inl e \<Rightarrow> (Inl e, lg)
               | Inr data \<Rightarrow>
                   (Inr (Val data),
                    log_to c (Debug ''HTTP Response'' (DataContext (status finalResponse) url data)) lg))
            else
              (case r_text finalResponse of
                 Inl e \<Rightarrow> (Inl e, lg)
               | Inr text \<Rightarrow>
                   (Inr (Val (JStr text)),
                    log_to c (Debug ''HTTP Response'' (TextContext (status finalResponse) url text)) lg))))"

definition final_response :: "'u ApiClient \<Rightarrow> string \<Rightarrow> init \<Rightarrow> nat \<Rightarrow> error + response" where
  \<comment> \<open>the call of \<open>fetchImpl\<close> under \<open>withTimeout\<close>, then the response interceptor\<close>
  "final_response c url ini timeout =
     (case withTimeout (fetchImpl c url ini) timeout of
        Inl e \<Rightarrow> Inl e
      | Inr response \<Rightarrow>
          (case interceptors c of
             None \<Rightarrow> Inr response
           | Some ics \<Rightarrow>
               (case i_response ics of None \<Rightarrow> Inr response | Some f \<Rightarrow> f response)))"

definition attempt ::
  "'u ApiClient \<Rightarrow> string \<Rightarrow> init \<Rightarrow> nat \<Rightarrow> Locale option \<Rightarrow> log_call list
     \<Rightarrow> (error + js_value) \<times> log_call list" where
  \<comment> \<open>the \<open>try\<close> block\<close>
  "attempt c url ini timeout loc lg =
     (case final_response c url ini timeout of
        Inl e \<Rightarrow> (Inl e, lg)
      | Inr finalResponse \<Rightarrow> interpretResponse c url loc finalResponse lg)"

definition catch ::
  "'u ApiClient \<Rightarrow> string \<Rightarrow> string option \<Rightarrow> (error + js_value) \<times> log_call list
     \<Rightarrow> (error + js_value) \<times> log_call list" where
  \<comment> \<open>the \<open>catch (err)\<close> block\<close>
  "catch c path meth r =
     (case r of
        (Inr v, lg) \<Rightarrow> (Inr v, lg)
      | (Inl err, lg) \<Rightarrow>
          (case read_name err of
             Inl thrown \<Rightarrow> (Inl thrown, lg)
           | Inr name \<Rightarrow>
               if name = Some ''AbortError'' then (Inl timeout_error, lg)
               else (Inl err,
                     log_to c (Error ''Request failed'' (FailureContext path meth) err) lg)))"

subsection \<open>The request\<close>

definition build_init :: "('u, 'q) env \<Rightarrow> 'u ApiClient \<Rightarrow> 'q options \<Rightarrow> init" where
  \<comment> \<open>headers, body and \<open>init\<close> as \<open>request\<close> builds them, before any interceptor\<close>
  "build_init E c options =
     (let hs = mergeHeaders c (o_headers options);
          preparedBody = prepareBody E (o_body options);
          hs' = (if truthy preparedBody \<and> \<not> instanceof_FormData (o_body options)
                 then Headers_set ''Content-Type'' ''application/json'' hs else hs)
      in \<lparr>i_method = o_method options, i_other = other options, i_headers = hs',
          i_body = preparedBody, i_signal = signal options\<rparr>
         \<lparr>i_signal := Some ControllerSignal\<rparr>)"

definition effective_timeout :: "'u ApiClient \<Rightarrow> 'q options \<Rightarrow> nat" where
  \<comment> \<open>\<open>timeoutMs ?? this.timeoutMs\<close>\<close>
  "effective_timeout c options =
     (case o_timeoutMs options of Some t \<Rightarrow> t | None \<Rightarrow> timeoutMs c)"

definition intercept_request ::
  "'u ApiClient \<Rightarrow> string \<Rightarrow> init \<Rightarrow> error + string \<times> init" where
  \<comment> \<open>\<open>if (this.interceptors?.request) [url, init] = await this.interceptors.request(url, init)\<close>\<close>
  "intercept_request c url ini =
     (case interceptors c of
        None \<Rightarrow> Inr (url, ini)
      | Some ics \<Rightarrow> (case i_request ics of None \<Rightarrow> Inr (url, ini) | Some f \<Rightarrow> f url ini))"

definition dispatch ::
  "('u, 'q) env \<Rightarrow> 'u ApiClient \<Rightarrow> string \<Rightarrow> 'q options
     \<Rightarrow> (error + string \<times> init) \<times> AbortController option" where
  \<comment> \<open>\<open>request\<close> up to the call of \<open>fetchImpl\<close>: what it will be called with, or the error
      thrown before, and the controller created on the way\<close>
  "dispatch E c path options =
     (case buildUrl E c path (searchParams options) of
        Inl e \<Rightarrow> (Inl e, None)
      | Inr url \<Rightarrow>
          (intercept_request c url (build_init E c options), Some new_AbortController))"

text \<open>
  One run of \<open>request\<close>: how its promise settles, the arguments \<open>fetchImpl\<close> was called
  with, the calls on the logger, and the controller it created (if it got that far).
  Nothing in \<open>request\<close> or \<open>withTimeout\<close> calls a method of the controller.
\<close>

record run =
  outcome :: "error + js_value"
  fetched :: "(string \<times> init) list"
  logged :: "log_call list"
  controller :: "AbortController option"

definition request :: "('u, 'q) env \<Rightarrow> 'u ApiClient \<Rightarrow> string \<Rightarrow> 'q options \<Rightarrow> run" where
  "request E c path options =
     (case dispatch E c path options of
        (Inl e, ctl) \<Rightarrow> \<lparr>outcome = Inl e, fetched = [], logged = [], controller = ctl\<rparr>
      | (Inr (url, ini), ctl) \<Rightarrow>
          (let lg = log_to c (Debug ''HTTP Request''
                               (RequestContext (o_method options) url (o_body options))) [];
               (res, lg') = catch c path (o_method options)
                              (attempt c url ini (effective_timeout c options)
                                 (errorLocale options) lg)
           in \<lparr>outcome = res, fetched = [(url, ini)], logged = lg', controller = ctl\<rparr>))"

definition no_options :: "'q options" where
  \<comment> \<open>\<open>{}\<close>\<close>
  "no_options = \<lparr>o_method = None, signal = None, other = [], searchParams = None, o_body = None,
                  o_headers = None, errorLocale = None, o_timeoutMs = None\<rparr>"

definition spread :: "'q options option \<Rightarrow> 'q options" where
  \<comment> \<open>\<open>{...options}\<close> for an optional argument\<close>
  "spread options = (case options of None \<Rightarrow> no_options | Some opts \<Rightarrow> opts)"

definition get :: "('u, 'q) env \<Rightarrow> 'u ApiClient \<Rightarrow> string \<Rightarrow> 'q options option \<Rightarrow> run" where
  "get E c path options = request E c path ((spread options)\<lparr>o_method := Some ''GET''\<rparr>)"

definition post :: "('u, 'q) env \<Rightarrow> 'u ApiClient \<Rightarrow> string \<Rightarrow> 'q options option \<Rightarrow> run" where
  "post E c path options = request E c path ((spread options)\<lparr>o_method := Some ''POST''\<rparr>)"

definition put :: "('u, 'q) env \<Rightarrow> 'u ApiClient \<Rightarrow> string \<Rightarrow> 'q options option \<Rightarrow> run" where
  "put E c path options = request E c path ((spread options)\<lparr>o_method := Some ''PUT''\<rparr>)"

definition patch :: "('u, 'q) env \<Rightarrow> 'u ApiClient \<Rightarrow> string \<Rightarrow> 'q options option \<Rightarrow> run" where
  "patch E c path options = request E c path ((spread options)\<lparr>o_method := Some ''PATCH''\<rparr>)"

definition delete :: "('u, 'q) env \<Rightarrow> 'u ApiClient \<Rightarrow> string \<Rightarrow> 'q options option \<Rightarrow> run" where
  "delete E c path options = request E c path ((spread options)\<lparr>o_method := Some ''DELETE''\<rparr>)"

section \<open>The specification's notions\<close>








text \<open>The bodies that the specification lets through as they are.\<close>

fun raw_body :: "body \<Rightarrow> bool" where
  "raw_body (BObject obj) = False"
| "raw_body b = True"

text \<open>The \<open>Content-Type\<close> of a response, empty if it has none.\<close>

definition content_type :: "response \<Rightarrow> string" where
  "content_type res =
     (case Headers_get (r_headers res) ''content-type'' of None \<Rightarrow> [] | Some t \<Rightarrow> t)"

text \<open>\<open>p\<close> occurs in \<open>s\<close> at some position, letter case aside.\<close>

definition contains_ci :: "string \<Rightarrow> string \<Rightarrow> bool" where
  "contains_ci s p =
     list_ex (\<lambda>i. toLowerCase (take (length p) (drop i s)) = toLowerCase p) [0..<Suc (length s)]"

text \<open>
  The errors that the collaborators raise in a run: the \<open>URL\<close> class or the request
  interceptor before the call, else the transport if it settles in time, else the
  response interceptor, else the body readers of the final response.
\<close>

definition collaborator_errors ::
  "('u, 'q) env \<Rightarrow> 'u ApiClient \<Rightarrow> string \<Rightarrow> 'q options \<Rightarrow> error list" where
  "collaborator_errors E c path options =
     (case dispatch E c path options of
        (Inl e, ctl) \<Rightarrow> [e]
      | (Inr (url, ini), ctl) \<Rightarrow>
          (case fetchImpl c url ini (effective_timeout c options) of
             None \<Rightarrow> []
           | Some (Inl e) \<Rightarrow> [e]
           | Some (Inr response) \<Rightarrow>
               (case final_response c url ini (effective_timeout c options) of
                  Inl e \<Rightarrow> [e]
                | Inr res \<Rightarrow>
                    (case r_json res of Inl e \<Rightarrow> [e] | Inr j \<Rightarrow> []) @
                    (case r_text res of Inl e \<Rightarrow> [e] | Inr t \<Rightarrow> []))))"







section \<open>Concrete clients and requests\<close>

text \<open>
  A small environment to run the model in: a URL is its text, a reference is resolved by
  appending it to the base, the query starts at the first question mark.
\<close>

definition text_env :: "(string, (string \<times> string) list) env" where
  "text_env =
     \<lparr>URL_new = (\<lambda>s base. case base of None \<Rightarrow> Inr s | Some b \<Rightarrow> Inr (b @ s)),
      URL_search = (\<lambda>u. dropWhile (\<lambda>ch. ch \<noteq> CHR ''?'') u),
      URL_set_search = (\<lambda>v u. takeWhile (\<lambda>ch. ch \<noteq> CHR ''?'') u @ v),
      URL_toString = (\<lambda>u. u),
      JSON_stringify = (\<lambda>obj. ''{'' @ concat (map fst obj) @ ''}''),
      toQueryString = (\<lambda>ps. concat (map (\<lambda>(k, v). k @ ''='' @ v) ps)),
      global_fetch = (\<lambda>url ini ms. None)\<rparr>"

text \<open>A client for \<open>https://api.test/\<close> with locale "es", a logger, and the given transport
  and message overrides.\<close>

definition api_test :: "fetch \<Rightarrow> (Locale \<Rightarrow> messages option) \<Rightarrow> string ApiClient" where
  "api_test f msgs =
     \<lparr>baseUrl = ''https://api.test/'', headers = [], fetchImpl = f, c_locale = Es,
      timeoutMs = 15000, interceptors = None, logger = True, errorMessages = msgs\<rparr>"

definition never_settles :: fetch where
  "never_settles url ini ms = None"

definition no_messages :: "Locale \<Rightarrow> messages option" where
  "no_messages loc = None"



definition refusing :: fetch where
  \<comment> \<open>a transport that rejects at once, as \<open>fetch\<close> does when the connection fails\<close>
  "refusing url ini ms = Some (Inl (JsError ''TypeError'' ''fetch failed''))"

definition rejecting :: "error \<Rightarrow> fetch" where
  \<comment> \<open>a transport that rejects at once with the given reason\<close>
  "rejecting e url ini ms = Some (Inl e)"

definition responding :: "response \<Rightarrow> fetch" where
  "responding res url ini ms = Some (Inr res)"

definition users_json :: json where
  \<comment> \<open>\<open>[{id: "1"}]\<close>\<close>
  "users_json = JArr [JObj [(''id'', JStr ''1'')]]"

definition users_text :: string where
  "users_text = ''[{'' @ [CHR 0x22] @ ''id'' @ [CHR 0x22] @ '':'' @ [CHR 0x22] @ ''1'' @ [CHR 0x22] @ ''}]''"

definition users_response :: "headers_init \<Rightarrow> response" where
  \<comment> \<open>status 200 with the given headers and the body \<open>[{"id":"1"}]\<close>\<close>
  "users_response hs =
     \<lparr>ok = True, status = 200, statusText = ''OK'', r_headers = new_Headers hs,
      r_json = Inr users_json, r_text = Inr users_text\<rparr>"

definition empty_response :: "int \<Rightarrow> headers_init \<Rightarrow> response" where
  \<comment> \<open>a 2xx response with the given status and headers and an empty body\<close>
  "empty_response st hs =
     \<lparr>ok = True, status = st, statusText = [], r_headers = new_Headers hs,
      r_json = Inl (JsError ''SyntaxError'' ''Unexpected end of JSON input''), r_text = Inr []\<rparr>"

definition GET :: "(string \<times> string) list options" where
  "GET = no_options\<lparr>o_method := Some ''GET''\<rparr>"

definition text_note :: "(string \<times> string) list options" where
  \<comment> \<open>\<open>{ method: "POST", body: "hello", headers: { "Content-Type": "text/plain" } }\<close>\<close>
  "text_note = no_options\<lparr>o_method := Some ''POST'', o_body := Some (BString ''hello''),
                            o_headers := Some [(''Content-Type'', ''text/plain'')]\<rparr>"

definition new_user :: "(string \<times> string) list options" where
  \<comment> \<open>\<open>{ method: "POST", body: { name: "Ada" } }\<close>\<close>
  "new_user = no_options\<lparr>o_method := Some ''POST'',
                           o_body := Some (BObject [(''name'', JStr ''Ada'')])\<rparr>"

definition empty_text :: "(string \<times> string) list options" where
  \<comment> \<open>\<open>{ method: "POST", body: "" }\<close>\<close>
  "empty_text = no_options\<lparr>o_method := Some ''POST'', o_body := Some (BString [])\<rparr>"









section \<open>Properties\<close>

subsection \<open>Locale preference and message lookup\<close>

















subsection \<open>Strings, URLs, headers and bodies\<close>

lemma str_includes_at:
  "str_includes s p \<longleftrightarrow> (\<exists>i \<le> length s. take (length p) (drop i s) = p)"
proof (induction s)
  case Nil
  show ?case by auto
next
  case (Cons a s)
  show ?case
  proof
    assume "str_includes (a # s) p"
    then consider "startsWith (a # s) p" | "str_includes s p" by auto
    then show "\<exists>i \<le> length (a # s). take (length p) (drop i (a # s)) = p"
    proof cases
      case 1
      then have "take (length p) (drop 0 (a # s)) = p" by (simp add: startsWith_def)
      then show ?thesis by blast
    next
      case 2
      with Cons obtain i where "i \<le> length s" "take (length p) (drop i s) = p" by auto
      then have "Suc i \<le> length (a # s)" "take (length p) (drop (Suc i) (a # s)) = p" by simp_all
      then show ?thesis by blast
    qed
  next
    assume "\<exists>i \<le> length (a # s). take (length p) (drop i (a # s)) = p"
    then obtain i where i: "i \<le> length (a # s)" "take (length p) (drop i (a # s)) = p" by blast
    show "str_includes (a # s) p"
    proof (cases i)
      case 0
      with i show ?thesis by (simp add: startsWith_def)
    next
      case (Suc j)
      with i have "j \<le> length s" "take (length p) (drop j s) = p" by simp_all
      with Cons show ?thesis by auto
    qed
  qed
qed


lemma json_lower: "toLowerCase ''json'' = ''json''"
  by code_simp

lemma contains_ci_iff:
  "contains_ci s p \<longleftrightarrow>
     (\<exists>i \<le> length s. toLowerCase (take (length p) (drop i s)) = toLowerCase p)"
proof -
  have "set [0..<Suc (length s)] = {i. i \<le> length s}"
    by auto
  then show ?thesis
    unfolding contains_ci_def list_ex_iff by blast
qed

lemma includes_lower_ci:
  assumes "toLowerCase p = p"
  shows "str_includes (toLowerCase s) p \<longleftrightarrow> contains_ci s p"
proof -
  have "take (length p) (drop i (toLowerCase s)) = toLowerCase (take (length p) (drop i s))" for i
    by (simp add: toLowerCase_def take_map drop_map)
  moreover have "length (toLowerCase s) = length s"
    by (simp add: toLowerCase_def)
  ultimately show ?thesis
    unfolding str_includes_at contains_ci_iff assms by simp
qed





lemma build_init_signal: "i_signal (build_init E c options) = Some ControllerSignal"
  by (simp add: build_init_def Let_def)

lemma build_init_body: "i_body (build_init E c options) = prepareBody E (o_body options)"
  by (simp add: build_init_def Let_def)

lemma build_init_headers:
  "i_headers (build_init E c options) =
     (if truthy (prepareBody E (o_body options)) \<and> \<not> instanceof_FormData (o_body options)
      then Headers_set ''Content-Type'' ''application/json'' (mergeHeaders c (o_headers options))
      else mergeHeaders c (o_headers options))"
  by (simp add: build_init_def Let_def)


lemma Headers_get_set:
  "Headers_get (Headers_set name v h) name' =
     (if toLowerCase name' = toLowerCase name then Some v else Headers_get h name')"
  by (simp add: Headers_get_def Headers_set_def)


subsection \<open>Runs of a request\<close>

lemma request_dispatched:
  assumes "dispatch E c path options = (Inr (url, ini), ctl)"
  shows "outcome (request E c path options) =
           fst (catch c path (o_method options)
                  (attempt c url ini (effective_timeout c options) (errorLocale options)
                     (log_to c (Debug ''HTTP Request''
                        (RequestContext (o_method options) url (o_body options))) [])))"
    and "logged (request E c path options) =
           snd (catch c path (o_method options)
                  (attempt c url ini (effective_timeout c options) (errorLocale options)
                     (log_to c (Debug ''HTTP Request''
                        (RequestContext (o_method options) url (o_body options))) [])))"
    and "fetched (request E c path options) = [(url, ini)]"
    and "controller (request E c path options) = ctl"
  using assms by (simp_all add: request_def Let_def split: prod.splits)

lemma dispatch_Inr_controller:
  "dispatch E c path options = (Inr x, ctl) \<Longrightarrow> ctl = Some \<lparr>aborted = False\<rparr>"
  by (auto simp: dispatch_def new_AbortController_def split: sum.splits)

lemma dispatch_plain:
  assumes "buildUrl E c path (searchParams options) = Inr url" "interceptors c = None"
  shows "dispatch E c path options = (Inr (url, build_init E c options), Some \<lparr>aborted = False\<rparr>)"
  using assms by (simp add: dispatch_def intercept_request_def new_AbortController_def)

lemma timeout_run:
  assumes "dispatch E c path options = (Inr (url, ini), ctl)"
      and "fetchImpl c url ini (effective_timeout c options) = None"
  shows "outcome (request E c path options) =
           Inl (ApiError 408 ''Timeout'' ''Request timeout'' (Val JNull) True)"
    and "controller (request E c path options) = Some \<lparr>aborted = False\<rparr>"
  using assms dispatch_Inr_controller [OF assms(1)]
  by (simp_all add: request_dispatched attempt_def final_response_def withTimeout_def
      catch_def timeout_error_def)

lemma rejection_run:
  assumes "dispatch E c path options = (Inr (url, ini), ctl)"
      and "fetchImpl c url ini (effective_timeout c options) = Some (Inl e)"
      and "read_name e = Inr n" "n \<noteq> Some ''AbortError''"
  shows "outcome (request E c path options) = Inl e"
    and "logged (request E c path options) =
           (if logger c
            then [Debug ''HTTP Request'' (RequestContext (o_method options) url (o_body options)),
                  Error ''Request failed'' (FailureContext path (o_method options)) e]
            else [])"
  using assms
  by (simp_all add: request_dispatched attempt_def final_response_def withTimeout_def
      catch_def log_to_def)

lemma nameless_rejection_run:
  assumes "dispatch E c path options = (Inr (url, ini), ctl)"
      and "fetchImpl c url ini (effective_timeout c options) = Some (Inl e)"
      and "read_name e = Inl thrown"
  shows "outcome (request E c path options) = Inl thrown"
    and "logged (request E c path options) =
           (if logger c
            then [Debug ''HTTP Request'' (RequestContext (o_method options) url (o_body options))]
            else [])"
  using assms
  by (simp_all add: request_dispatched attempt_def final_response_def withTimeout_def
      catch_def log_to_def)

lemma catch_Inl:
  "fst (catch c path meth (Inl e, lg)) = Inl e' \<Longrightarrow>
     e' = e \<or> e' = timeout_error \<or> read_name e = Inl e'"
  by (auto simp: catch_def split: if_splits sum.splits)

lemma catch_Inr: "fst (catch c path meth (Inr v, lg)) = Inr v"
  by (simp add: catch_def)


lemma read_name_timeout: "read_name timeout_error = Inr (Some ''ApiError'')"
  by (simp add: timeout_error_def)

lemma read_name_toApiError: "read_name (toApiError c res loc) = Inr (Some ''ApiError'')"
  by (simp add: toApiError_def Let_def)

lemma interpretResponse_Inl:
  assumes "fst (interpretResponse c url loc res lg) = Inl e"
  shows "(\<not> ok res \<and> e = toApiError c res loc) \<or> r_json res = Inl e \<or> r_text res = Inl e"
  using assms
  by (auto simp: interpretResponse_def Let_def split: if_splits sum.splits)

lemma error_outcome_origin:
  assumes "outcome (request E c path options) = Inl e"
  shows "e \<in> set (collaborator_errors E c path options) \<or> e = timeout_error \<or>
         (\<exists>e0. e0 \<in> set (collaborator_errors E c path options) \<and> read_name e0 = Inl e) \<or>
         (\<exists>url ini ctl res.
            dispatch E c path options = (Inr (url, ini), ctl) \<and>
            final_response c url ini (effective_timeout c options) = Inr res \<and>
            \<not> ok res \<and> e = toApiError c res (errorLocale options))"
proof (cases "dispatch E c path options")
  case (Pair d ctl)
  show ?thesis
  proof (cases d)
    case (Inl e0)
    with Pair assms show ?thesis
      by (simp add: request_def collaborator_errors_def)
  next
    case (Inr ui)
    obtain url ini where ui: "ui = (url, ini)" by (cases ui)
    note D = Pair [unfolded Inr ui]
    let ?t = "effective_timeout c options"
    let ?lg = "log_to c (Debug ''HTTP Request''
                 (RequestContext (o_method options) url (o_body options))) []"
    from assms have out:
      "fst (catch c path (o_method options) (attempt c url ini ?t (errorLocale options) ?lg)) = Inl e"
      by (simp add: request_dispatched(1) [OF D])
    show ?thesis
    proof (cases "final_response c url ini ?t")
      case (Inl e1)
      with out have "fst (catch c path (o_method options) (Inl e1, ?lg)) = Inl e"
        by (simp add: attempt_def)
      then have e: "e = e1 \<or> e = timeout_error \<or> read_name e1 = Inl e"
        by (rule catch_Inl)
      have "e1 = timeout_error \<or> e1 \<in> set (collaborator_errors E c path options)"
        using Inl D
        by (auto simp: collaborator_errors_def final_response_def withTimeout_def
            split: option.splits sum.splits)
      with e show ?thesis
        by (auto simp: read_name_timeout)
    next
      case (Inr res)
      obtain r lg' where I: "interpretResponse c url (errorLocale options) res ?lg = (r, lg')"
        by (cases "interpretResponse c url (errorLocale options) res ?lg")
      from out Inr I have c: "fst (catch c path (o_method options) (r, lg')) = Inl e"
        by (simp add: attempt_def)
      then obtain e1 where r: "r = Inl e1"
        by (cases r) (simp_all add: catch_Inr)
      with c have e: "e = e1 \<or> e = timeout_error \<or> read_name e1 = Inl e"
        by (auto dest: catch_Inl)
      from I r have "fst (interpretResponse c url (errorLocale options) res ?lg) = Inl e1"
        by simp
      from interpretResponse_Inl [OF this]
      have "(\<not> ok res \<and> e1 = toApiError c res (errorLocale options)) \<or>
            e1 \<in> set (collaborator_errors E c path options)"
        using Inr D
        by (auto simp: collaborator_errors_def final_response_def withTimeout_def
            split: option.splits sum.splits)
      with e D Inr show ?thesis
        by (auto simp: read_name_toApiError)
    qed
  qed
qed

lemma response_run:
  assumes "dispatch E c path options = (Inr (url, ini), ctl)"
      and "final_response c url ini (effective_timeout c options) = Inr res"
  shows "outcome (request E c path options) =
           fst (catch c path (o_method options)
                  (interpretResponse c url (errorLocale options) res
                     (log_to c (Debug ''HTTP Request''
                        (RequestContext (o_method options) url (o_body options))) [])))"
    and "logged (request E c path options) =
           snd (catch c path (o_method options)
                  (interpretResponse c url (errorLocale options) res
                     (log_to c (Debug ''HTTP Request''
                        (RequestContext (o_method options) url (o_body options))) [])))"
  using assms by (simp_all add: request_dispatched attempt_def)

lemma interpretResponse_no_content:
  assumes "ok res"
      and "status res = 204 \<or> Headers_get (r_headers res) ''content-length'' = None \<or>
           Headers_get (r_headers res) ''content-length'' = Some []"
  shows "interpretResponse c url loc res lg = (Inr Undefined, lg)"
  using assms by (auto simp: interpretResponse_def)

lemma interpretResponse_json:
  assumes "ok res" "status res \<noteq> 204"
      and "Headers_get (r_headers res) ''content-length'' = Some len" "len \<noteq> []"
      and "contains_ci (content_type res) ''json''" "r_json res = Inr data"
  shows "fst (interpretResponse c url loc res lg) = Inr (Val data)"
  using assms includes_lower_ci [OF json_lower, of "content_type res"]
  by (simp add: interpretResponse_def content_type_def Let_def)

lemma interpretResponse_text:
  assumes "ok res" "status res \<noteq> 204"
      and "Headers_get (r_headers res) ''content-length'' = Some len" "len \<noteq> []"
      and "\<not> contains_ci (content_type res) ''json''" "r_text res = Inr t"
  shows "fst (interpretResponse c url loc res lg) = Inr (Val (JStr t))"
  using assms includes_lower_ci [OF json_lower, of "content_type res"]
  by (simp add: interpretResponse_def content_type_def Let_def)

lemma fst_catch_Inr: "fst r = Inr v \<Longrightarrow> fst (catch c path meth r) = Inr v"
  by (cases r) (simp add: catch_def)

lemma build_init_raw:
  assumes "o_body options = Some b" "raw_body b" "b \<noteq> BString []"
  shows "i_body (build_init E c options) = Some b"
  using assms by (cases b) (simp_all add: build_init_body)

lemma build_init_object:
  assumes "o_body options = Some (BObject obj)" "JSON_stringify E obj \<noteq> []"
  shows "i_body (build_init E c options) = Some (BString (JSON_stringify E obj))"
    and "Headers_get (i_headers (build_init E c options)) ''Content-Type'' = Some ''application/json''"
  using assms by (simp_all add: build_init_body build_init_headers Headers_get_set)

lemma build_init_no_body:
  assumes "o_body options = None \<or> o_body options = Some (BString [])"
  shows "i_body (build_init E c options) = None"
    and "i_headers (build_init E c options) = mergeHeaders c (o_headers options)"
  using assms by (auto simp: build_init_body build_init_headers)

lemma build_init_form:
  assumes "o_body options = None \<or> instanceof_FormData (o_body options)"
  shows "i_headers (build_init E c options) = mergeHeaders c (o_headers options)"
  using assms by (auto simp: build_init_headers)



lemma api_test_users:
  "dispatch text_env (api_test f msgs) ''/users'' GET =
     (Inr (''https://api.test/users'', build_init text_env (api_test f msgs) GET),
      Some \<lparr>aborted = False\<rparr>)"
proof -
  have u: "buildUrl text_env (api_test f msgs) ''/users'' (searchParams GET) =
             Inr ''https://api.test/users''"
    by (simp add: buildUrl_def text_env_def api_test_def GET_def no_options_def startsWith_def)
  have i: "interceptors (api_test f msgs) = None"
    by (simp add: api_test_def)
  show ?thesis
    by (rule dispatch_plain [OF u i])
qed

lemma api_test_final:
  "final_response (api_test (responding res) msgs) url ini t = Inr res"
  by (simp add: final_response_def withTimeout_def api_test_def responding_def)

lemma get_GET: "get E c path None = request E c path GET"
  by (simp add: get_def spread_def GET_def)

lemma contains_json: "contains_ci ''application/json'' ''json''"
  by code_simp

lemma contains_no_json: "\<not> contains_ci ''text/plain'' ''json''"
  by code_simp







lemma interpretResponse_read:
  assumes "ok res" "status res \<noteq> 204"
      and "Headers_get (r_headers res) ''content-length'' = Some len" "len \<noteq> []"
  shows "fst (interpretResponse c url loc res lg) \<noteq> Inr Undefined"
  using assms by (simp add: interpretResponse_def Let_def split: sum.splits)

lemma interpretResponse_json_fails:
  assumes "ok res" "status res \<noteq> 204"
      and "Headers_get (r_headers res) ''content-length'' = Some len" "len \<noteq> []"
      and "contains_ci (content_type res) ''json''" "r_json res = Inl e"
  shows "interpretResponse c url loc res lg = (Inl e, lg)"
  using assms includes_lower_ci [OF json_lower, of "content_type res"]
  by (simp add: interpretResponse_def content_type_def Let_def)

lemma catch_not_undefined:
  "fst r \<noteq> Inr Undefined \<Longrightarrow> fst (catch c path meth r) \<noteq> Inr Undefined"
  by (cases r) (auto simp: catch_def split: sum.splits if_splits)









subsection \<open>The claims\<close>






text \<open>
  Claim C1. When the transport's promise has not settled by the time the timer of the
  effective timeout (\<open>options.timeoutMs\<close> if given, else the configured default) fires,
  the request rejects with \<open>ApiError\<close> 408, \<open>isTimeout\<close> true and body \<open>null\<close>. The
  transport was called with the controller's signal, and the controller is not aborted
  when the request has settled: its signal has not fired.
\<close>

theorem timeout_rejects_408_signal_not_fired:
  "dispatch E c path options = (Inr (url, ini), ctl) \<and>
   fetchImpl c url ini (case o_timeoutMs options of Some t \<Rightarrow> t | None \<Rightarrow> timeoutMs c) = None \<longrightarrow>
     outcome (request E c path options) =
       Inl (ApiError 408 ''Timeout'' ''Request timeout'' (Val JNull) True) \<and>
     fetched (request E c path options) = [(url, ini)] \<and>
     (interceptors c = None \<longrightarrow> i_signal ini = Some ControllerSignal) \<and>
     controller (request E c path options) = Some \<lparr>aborted = False\<rparr>"
proof (intro impI, elim conjE)
  assume D: "dispatch E c path options = (Inr (url, ini), ctl)"
    and F: "fetchImpl c url ini (case o_timeoutMs options of Some t \<Rightarrow> t | None \<Rightarrow> timeoutMs c) = None"
  from F have F': "fetchImpl c url ini (effective_timeout c options) = None"
    by (simp add: effective_timeout_def)
  have s: "i_signal ini = Some ControllerSignal" if "interceptors c = None"
    using D that
    by (auto simp: dispatch_def intercept_request_def build_init_signal split: sum.splits)
  from timeout_run [OF D F'] request_dispatched(3) [OF D] s
  show "outcome (request E c path options) =
          Inl (ApiError 408 ''Timeout'' ''Request timeout'' (Val JNull) True) \<and>
        fetched (request E c path options) = [(url, ini)] \<and>
        (interceptors c = None \<longrightarrow> i_signal ini = Some ControllerSignal) \<and>
        controller (request E c path options) = Some \<lparr>aborted = False\<rparr>"
    by blast
qed

theorem timeout_rejects_408_signal_not_fired_witness:
  "outcome (get text_env (api_test never_settles no_messages) ''/users'' None) =
     Inl (ApiError 408 ''Timeout'' ''Request timeout'' (Val JNull) True) \<and>
   map (\<lambda>(url, ini). (url, i_signal ini))
     (fetched (get text_env (api_test never_settles no_messages) ''/users'' None)) =
     [(''https://api.test/users'', Some ControllerSignal)] \<and>
   controller (get text_env (api_test never_settles no_messages) ''/users'' None) =
     Some \<lparr>aborted = False\<rparr>"
proof -
  let ?c = "api_test never_settles no_messages"
  have u: "buildUrl text_env ?c ''/users'' (searchParams GET) = Inr ''https://api.test/users''"
    by (simp add: buildUrl_def text_env_def api_test_def GET_def no_options_def startsWith_def)
  have i: "interceptors ?c = None"
    by (simp add: api_test_def)
  have f: "fetchImpl ?c ''https://api.test/users'' (build_init text_env ?c GET)
             (case o_timeoutMs GET of Some t \<Rightarrow> t | None \<Rightarrow> timeoutMs ?c) = None"
    by (simp add: api_test_def never_settles_def)
  have g: "get text_env ?c ''/users'' None = request text_env ?c ''/users'' GET"
    by (simp add: get_def spread_def GET_def)
  from timeout_rejects_408_signal_not_fired
         [of text_env ?c "''/users''" GET "''https://api.test/users''" "build_init text_env ?c GET"
             "Some \<lparr>aborted = False\<rparr>"]
       dispatch_plain [OF u i] f i
  show ?thesis
    by (simp add: g)
qed

text \<open>
  Claim C9, on the code. The transport rejects before the timer fires, with the reason
  \<open>e\<close>. If \<open>e\<close> has a name to read and it is not "AbortError", the request rejects with
  \<open>e\<close> itself; with a logger configured the failure is logged (path, method, error) after
  the request, and \<open>fetchImpl\<close> was called once. If \<open>e\<close> is \<open>undefined\<close> or \<open>null\<close>, reading
  its name in the \<open>catch\<close> block throws: the request rejects with that \<open>TypeError\<close>, not
  with \<open>e\<close>, and the failure is not logged. Every error a request rejects with was
  raised by a collaborator (the \<open>URL\<close> class, an interceptor, the transport, a body
  reader), or is the 408 timeout error, or that \<open>TypeError\<close>, or the \<open>ApiError\<close> built from
  a final response that is not \<open>ok\<close>.
\<close>

theorem transport_rejection_rethrown_unless_nameless:
  "(dispatch E c path options = (Inr (url, ini), ctl) \<and>
    fetchImpl c url ini (effective_timeout c options) = Some (Inl e) \<and>
    read_name e = Inr n \<and> n \<noteq> Some ''AbortError'' \<longrightarrow>
      outcome (request E c path options) = Inl e \<and>
      logged (request E c path options) =
        (if logger c
         then [Debug ''HTTP Request'' (RequestContext (o_method options) url (o_body options)),
               Error ''Request failed'' (FailureContext path (o_method options)) e]
         else []) \<and>
      fetched (request E c path options) = [(url, ini)]) \<and>
   (dispatch E c path options = (Inr (url, ini), ctl) \<and>
    fetchImpl c url ini (effective_timeout c options) = Some (Inl e) \<and>
    read_name e = Inl thrown \<longrightarrow>
      outcome (request E c path options) = Inl thrown \<and>
      logged (request E c path options) =
        (if logger c
         then [Debug ''HTTP Request'' (RequestContext (o_method options) url (o_body options))]
         else [])) \<and>
   (outcome (request E c path options) = Inl e' \<longrightarrow>
      e' \<in> set (collaborator_errors E c path options) \<or> e' = timeout_error \<or>
      (\<exists>e0. e0 \<in> set (collaborator_errors E c path options) \<and> read_name e0 = Inl e') \<or>
      (\<exists>url ini ctl res.
         dispatch E c path options = (Inr (url, ini), ctl) \<and>
         final_response c url ini (effective_timeout c options) = Inr res \<and>
         \<not> ok res \<and> e' = toApiError c res (errorLocale options)))"
proof (intro conjI impI)
  assume "dispatch E c path options = (Inr (url, ini), ctl) \<and>
          fetchImpl c url ini (effective_timeout c options) = Some (Inl e) \<and>
          read_name e = Inr n \<and> n \<noteq> Some ''AbortError''"
  then have D: "dispatch E c path options = (Inr (url, ini), ctl)"
    and F: "fetchImpl c url ini (effective_timeout c options) = Some (Inl e)"
    and N: "read_name e = Inr n" "n \<noteq> Some ''AbortError''"
    by simp_all
  show "outcome (request E c path options) = Inl e"
    by (rule rejection_run(1) [OF D F N])
  show "logged (request E c path options) =
          (if logger c
           then [Debug ''HTTP Request'' (RequestContext (o_method options) url (o_body options)),
                 Error ''Request failed'' (FailureContext path (o_method options)) e]
           else [])"
    by (rule rejection_run(2) [OF D F N])
  show "fetched (request E c path options) = [(url, ini)]"
    by (rule request_dispatched(3) [OF D])
next
  assume "dispatch E c path options = (Inr (url, ini), ctl) \<and>
          fetchImpl c url ini (effective_timeout c options) = Some (Inl e) \<and>
          read_name e = Inl thrown"
  then have D: "dispatch E c path options = (Inr (url, ini), ctl)"
    and F: "fetchImpl c url ini (effective_timeout c options) = Some (Inl e)"
    and N: "read_name e = Inl thrown"
    by simp_all
  show "outcome (request E c path options) = Inl thrown"
    by (rule nameless_rejection_run(1) [OF D F N])
  show "logged (request E c path options) =
          (if logger c
           then [Debug ''HTTP Request'' (RequestContext (o_method options) url (o_body options))]
           else [])"
    by (rule nameless_rejection_run(2) [OF D F N])
next
  assume "outcome (request E c path options) = Inl e'"
  then show "e' \<in> set (collaborator_errors E c path options) \<or> e' = timeout_error \<or>
      (\<exists>e0. e0 \<in> set (collaborator_errors E c path options) \<and> read_name e0 = Inl e') \<or>
      (\<exists>url ini ctl res.
         dispatch E c path options = (Inr (url, ini), ctl) \<and>
         final_response c url ini (effective_timeout c options) = Inr res \<and>
         \<not> ok res \<and> e' = toApiError c res (errorLocale options))"
    by (rule error_outcome_origin)
qed

theorem transport_rejection_rethrown_unless_nameless_witness:
  "read_name (JsError ''TypeError'' ''fetch failed'') = Inr (Some ''TypeError'') \<and>
   outcome (get text_env (api_test refusing no_messages) ''/users'' None) =
     Inl (JsError ''TypeError'' ''fetch failed'') \<and>
   logged (get text_env (api_test refusing no_messages) ''/users'' None) =
     [Debug ''HTTP Request'' (RequestContext (Some ''GET'') ''https://api.test/users'' None),
      Error ''Request failed'' (FailureContext ''/users'' (Some ''GET''))
        (JsError ''TypeError'' ''fetch failed'')] \<and>
   collaborator_errors text_env (api_test refusing no_messages) ''/users'' GET =
     [JsError ''TypeError'' ''fetch failed''] \<and>
   read_name (Thrown Undefined) = Inl (TypeError_name_of ''undefined'') \<and>
   outcome (get text_env (api_test (rejecting (Thrown Undefined)) no_messages) ''/users'' None) =
     Inl (TypeError_name_of ''undefined'') \<and>
   logged (get text_env (api_test (rejecting (Thrown Undefined)) no_messages) ''/users'' None) =
     [Debug ''HTTP Request'' (RequestContext (Some ''GET'') ''https://api.test/users'' None)]"
proof -
  let ?c = "api_test refusing no_messages"
  let ?e = "JsError ''TypeError'' ''fetch failed''"
  let ?c' = "api_test (rejecting (Thrown Undefined)) no_messages"
  have f: "fetchImpl ?c ''https://api.test/users'' (build_init text_env ?c GET)
             (effective_timeout ?c GET) = Some (Inl ?e)"
    by (simp add: api_test_def refusing_def)
  have f': "fetchImpl ?c' ''https://api.test/users'' (build_init text_env ?c' GET)
             (effective_timeout ?c' GET) = Some (Inl (Thrown Undefined))"
    by (simp add: api_test_def rejecting_def)
  have n: "read_name ?e = Inr (Some ''TypeError'')" "Some ''TypeError'' \<noteq> Some ''AbortError''"
    by simp_all
  have n': "read_name (Thrown Undefined) = Inl (TypeError_name_of ''undefined'')"
    by simp
  have l: "logger ?c" "logger ?c'" "o_method GET = Some ''GET''" "o_body GET = None"
    by (simp_all add: api_test_def GET_def no_options_def)
  have ce: "collaborator_errors text_env ?c ''/users'' GET = [?e]"
    by (simp add: collaborator_errors_def api_test_users f)
  note T = transport_rejection_rethrown_unless_nameless
             [where E = text_env and c = ?c and path = "''/users''" and options = GET
                and url = "''https://api.test/users''" and ini = "build_init text_env ?c GET"
                and e = ?e and n = "Some ''TypeError''"]
  note T' = transport_rejection_rethrown_unless_nameless
             [where E = text_env and c = ?c' and path = "''/users''" and options = GET
                and url = "''https://api.test/users''" and ini = "build_init text_env ?c' GET"
                and e = "Thrown Undefined" and thrown = "TypeError_name_of ''undefined''"]
  from T api_test_users [of refusing no_messages] f n have
    "outcome (request text_env ?c ''/users'' GET) = Inl ?e \<and>
     logged (request text_env ?c ''/users'' GET) =
       (if logger ?c
        then [Debug ''HTTP Request'' (RequestContext (o_method GET) ''https://api.test/users'' (o_body GET)),
              Error ''Request failed'' (FailureContext ''/users'' (o_method GET)) ?e]
        else [])"
    by blast
  moreover from T' api_test_users [of "rejecting (Thrown Undefined)" no_messages] f' n' have
    "outcome (request text_env ?c' ''/users'' GET) = Inl (TypeError_name_of ''undefined'') \<and>
     logged (request text_env ?c' ''/users'' GET) =
       (if logger ?c'
        then [Debug ''HTTP Request'' (RequestContext (o_method GET) ''https://api.test/users'' (o_body GET))]
        else [])"
    by blast
  ultimately show ?thesis
    using l ce n n'
    by (simp add: get_GET)
qed




text \<open>
  Claim C5, on the code. The \<open>init\<close> that \<open>request\<close> builds carries the signal of its own
  controller, whatever signal the caller put in the options; without a request
  interceptor this \<open>init\<close> is what the transport is called with. The caller's signal
  does not reach the transport.
\<close>

theorem caller_signal_replaced:
  "i_signal (build_init E c options) = Some ControllerSignal \<and>
   (buildUrl E c path (searchParams options) = Inr url \<and> interceptors c = None \<longrightarrow>
      fetched (request E c path options) = [(url, build_init E c options)])"
proof (intro conjI impI)
  show "i_signal (build_init E c options) = Some ControllerSignal"
    by (rule build_init_signal)
  assume "buildUrl E c path (searchParams options) = Inr url \<and> interceptors c = None"
  then have "dispatch E c path options =
               (Inr (url, build_init E c options), Some \<lparr>aborted = False\<rparr>)"
    by (simp add: dispatch_plain)
  then show "fetched (request E c path options) = [(url, build_init E c options)]"
    by (rule request_dispatched(3))
qed

theorem caller_signal_replaced_witness:
  "signal (GET\<lparr>signal := Some (CallerSignal 1)\<rparr>) = Some (CallerSignal 1) \<and>
   map (\<lambda>(url, ini). (url, i_signal ini))
     (fetched (request text_env (api_test never_settles no_messages) ''/users''
        (GET\<lparr>signal := Some (CallerSignal 1)\<rparr>))) =
     [(''https://api.test/users'', Some ControllerSignal)]"
proof -
  let ?c = "api_test never_settles no_messages"
  let ?o = "GET\<lparr>signal := Some (CallerSignal 1)\<rparr>"
  have u: "buildUrl text_env ?c ''/users'' (searchParams ?o) = Inr ''https://api.test/users''"
    by (simp add: buildUrl_def text_env_def api_test_def GET_def no_options_def startsWith_def)
  have i: "interceptors ?c = None"
    by (simp add: api_test_def)
  from caller_signal_replaced [of text_env ?c ?o "''/users''" "''https://api.test/users''"] u i
  show ?thesis
    by simp
qed




text \<open>
  Claim C8, as the code has it. A multipart form, a blob, an array buffer or a non-empty
  string goes to the transport as it is. A plain object goes as its \<open>JSON.stringify\<close> text,
  with \<open>Content-Type: application/json\<close> (the text of an object is never empty). An absent
  body and the empty string give no body and the merged headers, nothing injected. Form
  data gives the merged headers, nothing injected. Without a request interceptor the
  transport is called with this very \<open>init\<close>.
\<close>

theorem body_prepared_for_dispatch:
  "(o_body options = Some b \<and> raw_body b \<and> b \<noteq> BString [] \<longrightarrow>
      i_body (build_init E c options) = Some b) \<and>
   (o_body options = Some (BObject obj) \<and> JSON_stringify E obj \<noteq> [] \<longrightarrow>
      i_body (build_init E c options) = Some (BString (JSON_stringify E obj)) \<and>
      Headers_get (i_headers (build_init E c options)) ''Content-Type'' = Some ''application/json'') \<and>
   (o_body options = None \<or> o_body options = Some (BString []) \<longrightarrow>
      i_body (build_init E c options) = None \<and>
      i_headers (build_init E c options) = mergeHeaders c (o_headers options)) \<and>
   (o_body options = Some (BFormData fd) \<longrightarrow>
      i_headers (build_init E c options) = mergeHeaders c (o_headers options)) \<and>
   (buildUrl E c path (searchParams options) = Inr url \<and> interceptors c = None \<longrightarrow>
      fetched (request E c path options) = [(url, build_init E c options)])"
proof (intro conjI impI)
  assume "o_body options = Some b \<and> raw_body b \<and> b \<noteq> BString []"
  then show "i_body (build_init E c options) = Some b"
    by (simp add: build_init_raw)
next
  assume a: "o_body options = Some (BObject obj) \<and> JSON_stringify E obj \<noteq> []"
  then show "i_body (build_init E c options) = Some (BString (JSON_stringify E obj))"
    by (simp add: build_init_object(1))
  from a show "Headers_get (i_headers (build_init E c options)) ''Content-Type'' =
                 Some ''application/json''"
    by (simp add: build_init_object(2))
next
  assume a: "o_body options = None \<or> o_body options = Some (BString [])"
  then show "i_body (build_init E c options) = None"
    by (rule build_init_no_body(1))
  from a show "i_headers (build_init E c options) = mergeHeaders c (o_headers options)"
    by (rule build_init_no_body(2))
next
  assume "o_body options = Some (BFormData fd)"
  then show "i_headers (build_init E c options) = mergeHeaders c (o_headers options)"
    by (simp add: build_init_form)
next
  assume "buildUrl E c path (searchParams options) = Inr url \<and> interceptors c = None"
  then have "dispatch E c path options =
               (Inr (url, build_init E c options), Some \<lparr>aborted = False\<rparr>)"
    by (simp add: dispatch_plain)
  then show "fetched (request E c path options) = [(url, build_init E c options)]"
    by (rule request_dispatched(3))
qed

theorem body_prepared_for_dispatch_witness:
  "JSON_stringify text_env [(''name'', JStr ''Ada'')] = ''{name}'' \<and>
   map (\<lambda>(url, ini). (i_body ini, Headers_get (i_headers ini) ''Content-Type''))
     (fetched (request text_env (api_test never_settles no_messages) ''/users'' new_user)) =
     [(Some (BString ''{name}''), Some ''application/json'')] \<and>
   map (\<lambda>(url, ini). (i_body ini, Headers_get (i_headers ini) ''Content-Type''))
     (fetched (request text_env (api_test never_settles no_messages) ''/notes'' text_note)) =
     [(Some (BString ''hello''), Some ''application/json'')] \<and>
   map (\<lambda>(url, ini). (i_body ini, Headers_get (i_headers ini) ''Content-Type''))
     (fetched (request text_env (api_test never_settles no_messages) ''/users'' GET)) =
     [(None, None)]"
proof -
  let ?c = "api_test never_settles no_messages"
  have i: "interceptors ?c = None"
    by (simp add: api_test_def)
  have s: "JSON_stringify text_env [(''name'', JStr ''Ada'')] = ''{name}''"
    by (simp add: text_env_def)
  have u1: "buildUrl text_env ?c ''/users'' (searchParams new_user) = Inr ''https://api.test/users''"
    by (simp add: buildUrl_def text_env_def api_test_def new_user_def no_options_def startsWith_def)
  have u2: "buildUrl text_env ?c ''/notes'' (searchParams text_note) = Inr ''https://api.test/notes''"
    by (simp add: buildUrl_def text_env_def api_test_def text_note_def no_options_def startsWith_def)
  have u3: "buildUrl text_env ?c ''/users'' (searchParams GET) = Inr ''https://api.test/users''"
    by (simp add: buildUrl_def text_env_def api_test_def GET_def no_options_def startsWith_def)
  have o1: "o_body new_user = Some (BObject [(''name'', JStr ''Ada'')])"
    by (simp add: new_user_def no_options_def)
  have o2: "o_body text_note = Some (BString ''hello'')" "raw_body (BString ''hello'')"
    "BString ''hello'' \<noteq> BString []"
    by (simp_all add: text_note_def no_options_def)
  have o3: "o_body GET = None" "o_headers GET = None"
    by (simp_all add: GET_def no_options_def)
  have h2: "Headers_get (i_headers (build_init text_env ?c text_note)) ''Content-Type'' =
              Some ''application/json''"
    by (simp add: build_init_headers Headers_get_set text_note_def no_options_def)
  have m3: "Headers_get (mergeHeaders ?c None) ''Content-Type'' = None"
    by (simp add: mergeHeaders_def new_Headers_def Headers_get_def api_test_def)
  note T1 = body_prepared_for_dispatch
              [where options = new_user and obj = "[(''name'', JStr ''Ada'')]" and E = text_env
                 and c = ?c and path = "''/users''" and url = "''https://api.test/users''"]
  note T2 = body_prepared_for_dispatch
              [where options = text_note and b = "BString ''hello''" and E = text_env
                 and c = ?c and path = "''/notes''" and url = "''https://api.test/notes''"]
  note T3 = body_prepared_for_dispatch
              [where options = GET and E = text_env
                 and c = ?c and path = "''/users''" and url = "''https://api.test/users''"]
  from T1 u1 i o1 s have 1:
    "map (\<lambda>(url, ini). (i_body ini, Headers_get (i_headers ini) ''Content-Type''))
       (fetched (request text_env ?c ''/users'' new_user)) =
       [(Some (BString ''{name}''), Some ''application/json'')]"
    by simp
  from T2 u2 i o2 h2 have 2:
    "map (\<lambda>(url, ini). (i_body ini, Headers_get (i_headers ini) ''Content-Type''))
       (fetched (request text_env ?c ''/notes'' text_note)) =
       [(Some (BString ''hello''), Some ''application/json'')]"
    by simp
  from T3 u3 i o3 m3 have 3:
    "map (\<lambda>(url, ini). (i_body ini, Headers_get (i_headers ini) ''Content-Type''))
       (fetched (request text_env ?c ''/users'' GET)) = [(None, None)]"
    by simp
  from s 1 2 3 show ?thesis by blast
qed

text \<open>
  Claim C8 as stated passes every string through unchanged. The empty string is a string,
  and a POST with the body \<open>""\<close> reaches the transport without a body.
\<close>

theorem empty_string_body_counterexample:
  "o_body empty_text = Some (BString []) \<and>
   map (\<lambda>(url, ini). i_body ini)
     (fetched (request text_env (api_test never_settles no_messages) ''/notes'' empty_text)) =
     [None]"
proof -
  let ?c = "api_test never_settles no_messages"
  have u: "buildUrl text_env ?c ''/notes'' (searchParams empty_text) = Inr ''https://api.test/notes''"
    by (simp add: buildUrl_def text_env_def api_test_def empty_text_def no_options_def startsWith_def)
  have i: "interceptors ?c = None"
    by (simp add: api_test_def)
  have f: "fetched (request text_env ?c ''/notes'' empty_text) =
             [(''https://api.test/notes'', build_init text_env ?c empty_text)]"
    by (rule request_dispatched(3) [OF dispatch_plain [OF u i]])
  have o: "o_body empty_text = Some (BString [])"
    by (simp add: empty_text_def no_options_def)
  from f o show ?thesis
    by (simp add: build_init_body)
qed

text \<open>
  Claim C2, as the code has it. For a final response that is \<open>ok\<close>, not 204, and carries a
  non-empty \<open>Content-Length\<close> header: if its \<open>Content-Type\<close> contains "json", letter case
  aside, the request resolves to the parsed body; otherwise it resolves to the text of the
  body. So \<open>get("/users")\<close> on a client for \<open>https://api.test/\<close> with locale "es" resolves
  to \<open>[{id: "1"}]\<close> when the 200 response has that body, \<open>Content-Type: application/json\<close>
  and a \<open>Content-Length\<close>.
\<close>

theorem json_or_text_when_length_given:
  "dispatch E c path options = (Inr (url, ini), ctl) \<and>
   final_response c url ini (effective_timeout c options) = Inr res \<and>
   ok res \<and> status res \<noteq> 204 \<and>
   Headers_get (r_headers res) ''content-length'' = Some len \<and> len \<noteq> [] \<longrightarrow>
     (contains_ci (content_type res) ''json'' \<and> r_json res = Inr data \<longrightarrow>
        outcome (request E c path options) = Inr (Val data)) \<and>
     (\<not> contains_ci (content_type res) ''json'' \<and> r_text res = Inr t \<longrightarrow>
        outcome (request E c path options) = Inr (Val (JStr t)))"
proof (intro impI conjI)
  assume a: "dispatch E c path options = (Inr (url, ini), ctl) \<and>
   final_response c url ini (effective_timeout c options) = Inr res \<and>
   ok res \<and> status res \<noteq> 204 \<and>
   Headers_get (r_headers res) ''content-length'' = Some len \<and> len \<noteq> []"
  then have D: "dispatch E c path options = (Inr (url, ini), ctl)"
    and F: "final_response c url ini (effective_timeout c options) = Inr res"
    and R: "ok res" "status res \<noteq> 204"
           "Headers_get (r_headers res) ''content-length'' = Some len" "len \<noteq> []"
    by simp_all
  note O = response_run(1) [OF D F]
  {
    assume "contains_ci (content_type res) ''json'' \<and> r_json res = Inr data"
    then have "contains_ci (content_type res) ''json''" "r_json res = Inr data"
      by simp_all
    from interpretResponse_json [OF R this]
    show "outcome (request E c path options) = Inr (Val data)"
      unfolding O by (rule fst_catch_Inr)
  }
  {
    assume "\<not> contains_ci (content_type res) ''json'' \<and> r_text res = Inr t"
    then have "\<not> contains_ci (content_type res) ''json''" "r_text res = Inr t"
      by simp_all
    from interpretResponse_text [OF R this]
    show "outcome (request E c path options) = Inr (Val (JStr t))"
      unfolding O by (rule fst_catch_Inr)
  }
qed

theorem json_or_text_when_length_given_witness:
  "outcome (get text_env
      (api_test (responding (users_response
         [(''content-type'', ''application/json''), (''content-length'', ''12'')])) no_messages)
      ''/users'' None) = Inr (Val (JArr [JObj [(''id'', JStr ''1'')]])) \<and>
   outcome (get text_env
      (api_test (responding (users_response
         [(''content-type'', ''text/plain''), (''content-length'', ''12'')])) no_messages)
      ''/users'' None) = Inr (Val (JStr users_text))"
proof -
  let ?r1 = "users_response [(''content-type'', ''application/json''), (''content-length'', ''12'')]"
  let ?r2 = "users_response [(''content-type'', ''text/plain''), (''content-length'', ''12'')]"
  let ?c1 = "api_test (responding ?r1) no_messages"
  let ?c2 = "api_test (responding ?r2) no_messages"
  have l: "toLowerCase ''content-type'' = ''content-type''"
          "toLowerCase ''content-length'' = ''content-length''"
    by code_simp+
  have r1: "ok ?r1" "status ?r1 \<noteq> 204"
    "Headers_get (r_headers ?r1) ''content-length'' = Some ''12''"
    "content_type ?r1 = ''application/json''" "r_json ?r1 = Inr users_json"
    by (simp_all add: users_response_def content_type_def Headers_get_def new_Headers_def
        Headers_append_def l)
  have r2: "ok ?r2" "status ?r2 \<noteq> 204"
    "Headers_get (r_headers ?r2) ''content-length'' = Some ''12''"
    "content_type ?r2 = ''text/plain''" "r_text ?r2 = Inr users_text"
    by (simp_all add: users_response_def content_type_def Headers_get_def new_Headers_def
        Headers_append_def l)
  note T1 = json_or_text_when_length_given
              [where E = text_env and c = ?c1 and path = "''/users''" and options = GET
                 and res = ?r1 and len = "''12''" and data = users_json]
  note T2 = json_or_text_when_length_given
              [where E = text_env and c = ?c2 and path = "''/users''" and options = GET
                 and res = ?r2 and len = "''12''" and t = users_text]
  have j: "contains_ci (content_type ?r1) ''json''"
    unfolding r1 by (rule contains_json)
  have n: "\<not> contains_ci (content_type ?r2) ''json''"
    unfolding r2 by (rule contains_no_json)
  have e: "''12'' \<noteq> []"
    by simp
  from T1 api_test_users [of "responding ?r1" no_messages] api_test_final [of ?r1 no_messages]
    r1 j e
  have 1: "outcome (request text_env ?c1 ''/users'' GET) = Inr (Val users_json)"
    by blast
  from T2 api_test_users [of "responding ?r2" no_messages] api_test_final [of ?r2 no_messages]
    r2 n e
  have 2: "outcome (request text_env ?c2 ''/users'' GET) = Inr (Val (JStr users_text))"
    by blast
  from 1 2 show ?thesis
    by (simp add: get_GET users_json_def)
qed

text \<open>
  Claim C2 as stated: a 200 response with \<open>Content-Type: application/json\<close> and the body
  \<open>[{"id":"1"}]\<close>, as in the scenario, without a \<open>Content-Length\<close> header. The request
  resolves to \<open>undefined\<close>.
\<close>

theorem json_without_length_counterexample:
  "r_json (users_response [(''content-type'', ''application/json'')]) =
     Inr (JArr [JObj [(''id'', JStr ''1'')]]) \<and>
   outcome (get text_env
      (api_test (responding (users_response [(''content-type'', ''application/json'')])) no_messages)
      ''/users'' None) = Inr Undefined"
proof -
  let ?r = "users_response [(''content-type'', ''application/json'')]"
  let ?c = "api_test (responding ?r) no_messages"
  have l: "toLowerCase ''content-type'' = ''content-type''"
          "toLowerCase ''content-length'' = ''content-length''"
    by code_simp+
  have r: "ok ?r" "Headers_get (r_headers ?r) ''content-length'' = None"
    "r_json ?r = Inr (JArr [JObj [(''id'', JStr ''1'')]])"
    by (simp_all add: users_response_def Headers_get_def new_Headers_def Headers_append_def l
        users_json_def)
  have "outcome (request text_env ?c ''/users'' GET) = Inr Undefined"
    unfolding response_run(1) [OF api_test_users api_test_final]
    by (simp add: interpretResponse_no_content r catch_def)
  with r show ?thesis
    by (simp add: get_GET)
qed

text \<open>
  Claim C6, on the code. For a final response that is \<open>ok\<close>: if its status is 204, or it
  has no \<open>Content-Length\<close> header, or that header is empty, the request resolves to
  \<open>undefined\<close>, whatever the body readers would give and whatever the \<open>Content-Type\<close>; the
  logger then gets the request entry only. A \<open>Content-Length\<close> of \<open>0\<close> is none of these:
  with a status other than 204 the body is read, and the request never resolves to
  \<open>undefined\<close>. With a JSON content type it rejects with what \<open>json()\<close> throws (logged as a
  failed request); with another content type it resolves to the text of the body.
\<close>

theorem content_length_zero_is_read:
  "(dispatch E c path options = (Inr (url, ini), ctl) \<and>
    final_response c url ini (effective_timeout c options) = Inr res \<and>
    ok res \<and>
    (status res = 204 \<or> Headers_get (r_headers res) ''content-length'' = None \<or>
     Headers_get (r_headers res) ''content-length'' = Some []) \<longrightarrow>
      outcome (request E c path options) = Inr Undefined \<and>
      logged (request E c path options) =
        (if logger c
         then [Debug ''HTTP Request'' (RequestContext (o_method options) url (o_body options))]
         else [])) \<and>
   (dispatch E c path options = (Inr (url, ini), ctl) \<and>
    final_response c url ini (effective_timeout c options) = Inr res \<and>
    ok res \<and> status res \<noteq> 204 \<and>
    Headers_get (r_headers res) ''content-length'' = Some ''0'' \<longrightarrow>
      outcome (request E c path options) \<noteq> Inr Undefined \<and>
      (contains_ci (content_type res) ''json'' \<and> r_json res = Inl e \<and>
       read_name e = Inr n \<and> n \<noteq> Some ''AbortError'' \<longrightarrow>
         outcome (request E c path options) = Inl e \<and>
         logged (request E c path options) =
           (if logger c
            then [Debug ''HTTP Request'' (RequestContext (o_method options) url (o_body options)),
                  Error ''Request failed'' (FailureContext path (o_method options)) e]
            else [])) \<and>
      (\<not> contains_ci (content_type res) ''json'' \<and> r_text res = Inr t \<longrightarrow>
         outcome (request E c path options) = Inr (Val (JStr t))))"
proof (intro conjI impI)
  assume "dispatch E c path options = (Inr (url, ini), ctl) \<and>
    final_response c url ini (effective_timeout c options) = Inr res \<and>
    ok res \<and>
    (status res = 204 \<or> Headers_get (r_headers res) ''content-length'' = None \<or>
     Headers_get (r_headers res) ''content-length'' = Some [])"
  then have D: "dispatch E c path options = (Inr (url, ini), ctl)"
    and F: "final_response c url ini (effective_timeout c options) = Inr res"
    and R: "ok res"
           "status res = 204 \<or> Headers_get (r_headers res) ''content-length'' = None \<or>
            Headers_get (r_headers res) ''content-length'' = Some []"
    by simp_all
  show "outcome (request E c path options) = Inr Undefined"
    unfolding response_run [OF D F] interpretResponse_no_content [OF R]
    by (simp add: catch_def)
  show "logged (request E c path options) =
        (if logger c
         then [Debug ''HTTP Request'' (RequestContext (o_method options) url (o_body options))]
         else [])"
    unfolding response_run [OF D F] interpretResponse_no_content [OF R]
    by (simp add: catch_def log_to_def)
next
  assume "dispatch E c path options = (Inr (url, ini), ctl) \<and>
    final_response c url ini (effective_timeout c options) = Inr res \<and>
    ok res \<and> status res \<noteq> 204 \<and>
    Headers_get (r_headers res) ''content-length'' = Some ''0''"
  then have D: "dispatch E c path options = (Inr (url, ini), ctl)"
    and F: "final_response c url ini (effective_timeout c options) = Inr res"
    and R: "ok res" "status res \<noteq> 204"
           "Headers_get (r_headers res) ''content-length'' = Some ''0''"
    by simp_all
  have z: "''0'' \<noteq> []"
    by simp
  show "outcome (request E c path options) \<noteq> Inr Undefined"
    unfolding response_run(1) [OF D F]
    by (rule catch_not_undefined) (rule interpretResponse_read [OF R z])
  {
    assume "contains_ci (content_type res) ''json'' \<and> r_json res = Inl e \<and>
            read_name e = Inr n \<and> n \<noteq> Some ''AbortError''"
    then have J: "contains_ci (content_type res) ''json''" "r_json res = Inl e"
      and N: "read_name e = Inr n" "n \<noteq> Some ''AbortError''"
      by simp_all
    note I = interpretResponse_json_fails [OF R z J]
    show "outcome (request E c path options) = Inl e"
      unfolding response_run(1) [OF D F] I using N by (simp add: catch_def)
    show "logged (request E c path options) =
           (if logger c
            then [Debug ''HTTP Request'' (RequestContext (o_method options) url (o_body options)),
                  Error ''Request failed'' (FailureContext path (o_method options)) e]
            else [])"
      unfolding response_run(2) [OF D F] I using N by (simp add: catch_def log_to_def)
  }
  {
    assume "\<not> contains_ci (content_type res) ''json'' \<and> r_text res = Inr t"
    then have "\<not> contains_ci (content_type res) ''json''" "r_text res = Inr t"
      by simp_all
    from interpretResponse_text [OF R z this]
    show "outcome (request E c path options) = Inr (Val (JStr t))"
      unfolding response_run(1) [OF D F] by (rule fst_catch_Inr)
  }
qed

theorem content_length_zero_is_read_witness:
  "status (empty_response 204 [(''content-type'', ''application/json''), (''content-length'', ''2'')]) = 204 \<and>
   outcome (get text_env
      (api_test (responding (empty_response 204
         [(''content-type'', ''application/json''), (''content-length'', ''2'')])) no_messages)
      ''/users'' None) = Inr Undefined \<and>
   Headers_get (r_headers (empty_response 200
      [(''content-type'', ''application/json''), (''content-length'', ''0'')])) ''content-length'' =
     Some ''0'' \<and>
   outcome (get text_env
      (api_test (responding (empty_response 200
         [(''content-type'', ''application/json''), (''content-length'', ''0'')])) no_messages)
      ''/users'' None) = Inl (JsError ''SyntaxError'' ''Unexpected end of JSON input'') \<and>
   logged (get text_env
      (api_test (responding (empty_response 200
         [(''content-type'', ''application/json''), (''content-length'', ''0'')])) no_messages)
      ''/users'' None) =
     [Debug ''HTTP Request'' (RequestContext (Some ''GET'') ''https://api.test/users'' None),
      Error ''Request failed'' (FailureContext ''/users'' (Some ''GET''))
        (JsError ''SyntaxError'' ''Unexpected end of JSON input'')] \<and>
   outcome (get text_env
      (api_test (responding (empty_response 200
         [(''content-type'', ''text/plain''), (''content-length'', ''0'')])) no_messages)
      ''/users'' None) = Inr (Val (JStr []))"
proof -
  let ?r1 = "empty_response 204 [(''content-type'', ''application/json''), (''content-length'', ''2'')]"
  let ?r2 = "empty_response 200 [(''content-type'', ''application/json''), (''content-length'', ''0'')]"
  let ?r3 = "empty_response 200 [(''content-type'', ''text/plain''), (''content-length'', ''0'')]"
  let ?c1 = "api_test (responding ?r1) no_messages"
  let ?c2 = "api_test (responding ?r2) no_messages"
  let ?c3 = "api_test (responding ?r3) no_messages"
  let ?e = "JsError ''SyntaxError'' ''Unexpected end of JSON input''"
  let ?ctl = "Some \<lparr>aborted = False\<rparr>"
  have l: "toLowerCase ''content-type'' = ''content-type''"
          "toLowerCase ''content-length'' = ''content-length''"
    by code_simp+
  have r1: "ok ?r1" "status ?r1 = 204"
    by (simp_all add: empty_response_def)
  have r2: "ok ?r2" "status ?r2 \<noteq> 204"
    "Headers_get (r_headers ?r2) ''content-length'' = Some ''0''"
    "content_type ?r2 = ''application/json''" "r_json ?r2 = Inl ?e"
    by (simp_all add: empty_response_def content_type_def Headers_get_def new_Headers_def
        Headers_append_def l)
  have r3: "ok ?r3" "status ?r3 \<noteq> 204"
    "Headers_get (r_headers ?r3) ''content-length'' = Some ''0''"
    "content_type ?r3 = ''text/plain''" "r_text ?r3 = Inr []"
    by (simp_all add: empty_response_def content_type_def Headers_get_def new_Headers_def
        Headers_append_def l)
  have j: "contains_ci (content_type ?r2) ''json''"
    unfolding r2 by (rule contains_json)
  have nj: "\<not> contains_ci (content_type ?r3) ''json''"
    unfolding r3 by (rule contains_no_json)
  have n: "read_name ?e = Inr (Some ''SyntaxError'')" "Some ''SyntaxError'' \<noteq> Some ''AbortError''"
    by simp_all
  have g: "logger ?c2" "o_method GET = Some ''GET''" "o_body GET = None"
    by (simp_all add: api_test_def GET_def no_options_def)
  note T1 = content_length_zero_is_read
              [where E = text_env and c = ?c1 and path = "''/users''" and options = GET
                 and res = ?r1 and url = "''https://api.test/users''"
                 and ini = "build_init text_env ?c1 GET" and ctl = ?ctl]
  note T2 = content_length_zero_is_read
              [where E = text_env and c = ?c2 and path = "''/users''" and options = GET
                 and res = ?r2 and url = "''https://api.test/users''"
                 and ini = "build_init text_env ?c2 GET" and ctl = ?ctl
                 and e = ?e and n = "Some ''SyntaxError''"]
  note T3 = content_length_zero_is_read
              [where E = text_env and c = ?c3 and path = "''/users''" and options = GET
                 and res = ?r3 and url = "''https://api.test/users''"
                 and ini = "build_init text_env ?c3 GET" and ctl = ?ctl and t = "[]"]
  from T1 api_test_users [of "responding ?r1" no_messages] api_test_final [of ?r1 no_messages] r1
  have 1: "outcome (request text_env ?c1 ''/users'' GET) = Inr Undefined"
    by blast
  from T2 api_test_users [of "responding ?r2" no_messages] api_test_final [of ?r2 no_messages]
    r2(1,2,3) j r2(5) n
  have 2: "outcome (request text_env ?c2 ''/users'' GET) = Inl ?e \<and>
           logged (request text_env ?c2 ''/users'' GET) =
             (if logger ?c2
              then [Debug ''HTTP Request''
                      (RequestContext (o_method GET) ''https://api.test/users'' (o_body GET)),
                    Error ''Request failed'' (FailureContext ''/users'' (o_method GET)) ?e]
              else [])"
    by blast
  from T3 api_test_users [of "responding ?r3" no_messages] api_test_final [of ?r3 no_messages]
    r3(1,2,3) nj r3(5)
  have 3: "outcome (request text_env ?c3 ''/users'' GET) = Inr (Val (JStr []))"
    by blast
  from 1 2 3 r1 r2 g show ?thesis
    by (simp add: get_GET)
qed

end
